theory Spec2Isabelle
  imports Main
begin

section \<open>JavaScript values used by the server\<close>

text \<open>
  A JavaScript string is a sequence of UTF-16 code units. A code unit is modelled as a
  natural number (the values below 65536 are the code units), a string as a list of them.
  String literals of the source are written \<open>js ''...''\<close>. Regular expressions without the
  \<open>u\<close> flag, \<open>split\<close> and \<open>includes\<close> all work on code units.
\<close>

type_synonym code_unit = nat
type_synonym jsstring = "code_unit list"

definition js :: "string \<Rightarrow> jsstring" where
  "js s = map of_char s"

text \<open>
  The exceptions the source raises. \<open>Error m\<close> is \<open>new Error(m)\<close>, \<open>LinearError m\<close> an
  error of the upstream SDK, \<open>TypeError m\<close> the engine's error on reading a property of
  \<open>undefined\<close>.
\<close>

datatype error = Error jsstring | LinearError jsstring | TypeError jsstring

fun message :: "error \<Rightarrow> jsstring" where
  "message (Error m) = m"
| "message (LinearError m) = m"
| "message (TypeError m) = m"

section \<open>RateLimiter\<close>

text \<open>
  \<open>class RateLimiter\<close>, lines 14 to 47. Timestamps are the integers \<open>Date.now()\<close> returns
  (milliseconds); the clock value read by a method is its first argument.
\<close>

record metrics =
  totalRequests :: int
  requestsInLastHour :: int
  averageRequestTime :: int
  queueLength :: int
  lastRequestTime :: int

record RateLimiter =
  requestsPerHour :: int
  requests :: "int list"
  metrics :: metrics

record metrics_snapshot = metrics +
  remainingRequests :: int

text \<open>The constructor; \<open>now\<close> is the value of \<open>Date.now()\<close> at construction.\<close>

definition new_RateLimiter :: "int \<Rightarrow> RateLimiter" where
  "new_RateLimiter now =
     \<lparr> requestsPerHour = 1000,
       requests = [],
       metrics = \<lparr> totalRequests = 0, requestsInLastHour = 0, averageRequestTime = 0,
                   queueLength = 0, lastRequestTime = now \<rparr> \<rparr>"

text \<open>
  \<open>checkLimit\<close>: the window is pruned before the test, so the pruned window is part of the
  state also when the method throws. The result pairs the outcome with the state left
  behind.
\<close>

definition checkLimit :: "int \<Rightarrow> RateLimiter \<Rightarrow> (error + unit) \<times> RateLimiter" where
  "checkLimit now s =
     (let s1 = s\<lparr> requests := filter (\<lambda>time. now - time < 3600000) (requests s) \<rparr>
      in if int (length (requests s1)) \<ge> requestsPerHour s1
         then (Inl (Error (js ''Rate limit exceeded'')), s1)
         else
           (let s2 = s1\<lparr> requests := requests s1 @ [now] \<rparr>;
                m1 = (metrics s2)\<lparr> totalRequests := totalRequests (metrics s2) + 1 \<rparr>;
                m2 = m1\<lparr> requestsInLastHour := int (length (requests s2)) \<rparr>;
                m3 = m2\<lparr> lastRequestTime := now \<rparr>
            in (Inr (), s2\<lparr> metrics := m3 \<rparr>)))"

definition getMetrics :: "RateLimiter \<Rightarrow> metrics_snapshot" where
  "getMetrics s =
     metrics.extend (metrics s)
       \<lparr> remainingRequests = requestsPerHour s - requestsInLastHour (metrics s) \<rparr>"

text \<open>
  A sequence of \<open>checkLimit\<close> calls, one per clock value of the list, on one limiter. Every
  caller catches the exception, so the limiter lives on after a refused call. The second
  component logs the clock values of the calls that were admitted, in order.
\<close>

definition admit_step :: "RateLimiter \<times> int list \<Rightarrow> int \<Rightarrow> RateLimiter \<times> int list" where
  "admit_step st now =
     (case checkLimit now (fst st) of
        (Inl e, s') \<Rightarrow> (s', snd st)
      | (Inr u, s') \<Rightarrow> (s', snd st @ [now]))"

definition admit_all :: "RateLimiter \<Rightarrow> int list \<Rightarrow> RateLimiter \<times> int list" where
  "admit_all s nows = foldl admit_step (s, []) nows"

section \<open>The query compiler\<close>

subsection \<open>Character classes\<close>

text \<open>
  \<open>\s\<close> of a regular expression, which is also the white space \<open>Number\<close> and \<open>parseInt\<close>
  strip: TAB, LF, VT, FF, CR, SP, NBSP, U+1680, U+2000 to U+200A, U+2028, U+2029, U+202F,
  U+205F, U+3000 and U+FEFF. A line terminator (LF, CR, U+2028, U+2029) is what \<open>.\<close> does
  not match.
\<close>

definition isWhiteSpace :: "code_unit \<Rightarrow> bool" where
  "isWhiteSpace c \<longleftrightarrow>
     c = 9 \<or> c = 10 \<or> c = 11 \<or> c = 12 \<or> c = 13 \<or> c = 32 \<or> c = 160 \<or> c = 5760 \<or>
     (8192 \<le> c \<and> c \<le> 8202) \<or> c = 8232 \<or> c = 8233 \<or> c = 8239 \<or> c = 8287 \<or>
     c = 12288 \<or> c = 65279"

definition isLineTerminator :: "code_unit \<Rightarrow> bool" where
  "isLineTerminator c \<longleftrightarrow> c = 10 \<or> c = 13 \<or> c = 8232 \<or> c = 8233"

definition isDecimalDigit :: "code_unit \<Rightarrow> bool" where
  "isDecimalDigit c \<longleftrightarrow> 48 \<le> c \<and> c \<le> 57"

definition colon :: code_unit where "colon = 58"
definition dquote :: code_unit where "dquote = 34"

subsection \<open>The tokenizer\<close>

text \<open>
  \<open>query.match(/\S+:"[^"]+"|[^:\s]+:[^\s]+|\S+/g) || []\<close>, line 329. Each alternative is
  matched at the head of the remaining input and returns the length of its match.

  First alternative \<open>\S+:"[^"]+"\<close>: \<open>\S+\<close> is greedy and gives characters back one at a time
  (\<open>alt1_from\<close> counts down from the longest run of non-space characters); what follows must be
  a colon, a quote, at least one character that is no quote, and a quote (\<open>quoted_tail\<close>; the
  greedy \<open>[^"]+\<close> stops at the first quote or at the end of input, and giving characters
  back cannot help it).
\<close>

definition quoted_tail :: "jsstring \<Rightarrow> nat option" where
  "quoted_tail t =
     (case t of
        c1 # c2 # r \<Rightarrow>
          if c1 = colon \<and> c2 = dquote then
            (case dropWhile (\<lambda>c. c \<noteq> dquote) r of
               [] \<Rightarrow> None
             | q # r' \<Rightarrow>
                 if takeWhile (\<lambda>c. c \<noteq> dquote) r \<noteq> []
                 then Some (length (takeWhile (\<lambda>c. c \<noteq> dquote) r) + 3)
                 else None)
          else None
      | _ \<Rightarrow> None)"

fun alt1_from :: "jsstring \<Rightarrow> nat \<Rightarrow> nat option" where
  "alt1_from s 0 = None"
| "alt1_from s (Suc k) =
     (case quoted_tail (drop (Suc k) s) of
        Some m \<Rightarrow> Some (Suc k + m)
      | None \<Rightarrow> alt1_from s k)"

definition alt1 :: "jsstring \<Rightarrow> nat option" where
  "alt1 s = alt1_from s (length (takeWhile (\<lambda>c. \<not> isWhiteSpace c) s))"

text \<open>
  Second alternative \<open>[^:\s]+:[^\s]+\<close>: the longest run free of colons and spaces, a colon,
  the longest non-empty run of non-space characters. Third alternative \<open>\S+\<close>.
\<close>

definition alt2 :: "jsstring \<Rightarrow> nat option" where
  "alt2 s =
     (let k = length (takeWhile (\<lambda>c. c \<noteq> colon \<and> \<not> isWhiteSpace c) s) in
      if k = 0 then None
      else
        (case drop k s of
           [] \<Rightarrow> None
         | c # r \<Rightarrow>
             if c = colon \<and> takeWhile (\<lambda>c. \<not> isWhiteSpace c) r \<noteq> []
             then Some (k + 1 + length (takeWhile (\<lambda>c. \<not> isWhiteSpace c) r))
             else None))"

definition alt3 :: "jsstring \<Rightarrow> nat option" where
  "alt3 s =
     (let m = length (takeWhile (\<lambda>c. \<not> isWhiteSpace c) s) in
      if m = 0 then None else Some m)"

definition match_at :: "jsstring \<Rightarrow> nat option" where
  "match_at s =
     (case alt1 s of
        Some n \<Rightarrow> Some n
      | None \<Rightarrow> (case alt2 s of Some n \<Rightarrow> Some n | None \<Rightarrow> alt3 s))"

text \<open>
  The global match: at every position the alternatives are tried in order; after a match
  the search resumes behind it, and a position where nothing matches (a space) is skipped.
  \<open>match\<close> returns \<open>null\<close> when there is no match at all, which \<open>|| []\<close> turns into the
  empty list. Behind a match of length \<open>n\<close> at \<open>c # cs\<close> the input is \<open>drop n (c # cs)\<close>, that
  is \<open>drop (n - 1) cs\<close>.
\<close>

fun matchAll :: "jsstring \<Rightarrow> jsstring list" where
  "matchAll [] = []"
| "matchAll (c # cs) =
     (case match_at (c # cs) of
        None \<Rightarrow> matchAll cs
      | Some n \<Rightarrow> take n (c # cs) # matchAll (drop (n - 1) cs))"

text \<open>
  \<open>part.split(':')\<close>: the pieces between the colons, as the first piece and the list of the
  others (there is always a first piece). \<open>const [key, value]\<close> takes the first piece and
  the head of the others, \<open>undefined\<close> when there is none.
\<close>

fun split_colon :: "jsstring \<Rightarrow> jsstring \<times> jsstring list" where
  "split_colon [] = ([], [])"
| "split_colon (c # cs) =
     (case split_colon cs of
        (x, xs) \<Rightarrow> if c = colon then ([], x # xs) else (c # x, xs))"

text \<open>
  \<open>value.replace(/^"(.*)"$/, '$1')\<close>: a value that starts and ends with a quote (two
  distinct characters) and has no line terminator in between loses the two quotes; any
  other value is returned unchanged.
\<close>

definition strip_quotes :: "jsstring \<Rightarrow> jsstring" where
  "strip_quotes v =
     (if 2 \<le> length v \<and> hd v = dquote \<and> last v = dquote \<and>
         list_all (\<lambda>c. \<not> isLineTerminator c) (butlast (tl v))
      then butlast (tl v) else v)"

subsection \<open>Number conversion\<close>

text \<open>
  \<open>isNaN(value)\<close> converts a string with \<open>Number\<close>: the result is \<open>NaN\<close> exactly when the
  string, white space stripped from both ends, is neither empty nor a
  \<open>StrNumericLiteral\<close> of the language standard: a signed decimal literal (digits with an
  optional fraction and exponent, or \<open>Infinity\<close>) or an unsigned binary, octal or
  hexadecimal integer literal. \<open>isNaN(undefined)\<close> is true.
\<close>

definition trim :: "jsstring \<Rightarrow> jsstring" where
  "trim s = rev (dropWhile isWhiteSpace (rev (dropWhile isWhiteSpace s)))"

definition isHexDigit :: "code_unit \<Rightarrow> bool" where
  "isHexDigit c \<longleftrightarrow> isDecimalDigit c \<or> (65 \<le> c \<and> c \<le> 70) \<or> (97 \<le> c \<and> c \<le> 102)"

definition isOctalDigit :: "code_unit \<Rightarrow> bool" where
  "isOctalDigit c \<longleftrightarrow> 48 \<le> c \<and> c \<le> 55"

definition isBinaryDigit :: "code_unit \<Rightarrow> bool" where
  "isBinaryDigit c \<longleftrightarrow> c = 48 \<or> c = 49"

definition isNonDecimalIntegerLiteral :: "jsstring \<Rightarrow> bool" where
  "isNonDecimalIntegerLiteral t =
     (case t of
        z # p # ds \<Rightarrow>
          z = 48 \<and> ds \<noteq> [] \<and>
          ((p = 120 \<or> p = 88) \<and> list_all isHexDigit ds \<or>
           (p = 111 \<or> p = 79) \<and> list_all isOctalDigit ds \<or>
           (p = 98 \<or> p = 66) \<and> list_all isBinaryDigit ds)
      | _ \<Rightarrow> False)"

definition isExponentPart_opt :: "jsstring \<Rightarrow> bool" where
  "isExponentPart_opt r =
     (case r of
        [] \<Rightarrow> True
      | e # r' \<Rightarrow>
          (e = 101 \<or> e = 69) \<and>
          (let ds = (case r' of
                       [] \<Rightarrow> []
                     | sg # r'' \<Rightarrow> if sg = 43 \<or> sg = 45 then r'' else r')
           in ds \<noteq> [] \<and> list_all isDecimalDigit ds))"

definition isStrUnsignedDecimalLiteral :: "jsstring \<Rightarrow> bool" where
  "isStrUnsignedDecimalLiteral u =
     (u = js ''Infinity'' \<or>
      (let ip = takeWhile isDecimalDigit u in
       case dropWhile isDecimalDigit u of
         [] \<Rightarrow> ip \<noteq> []
       | c # r \<Rightarrow>
           if c = 46
           then (ip \<noteq> [] \<or> takeWhile isDecimalDigit r \<noteq> []) \<and>
                isExponentPart_opt (dropWhile isDecimalDigit r)
           else ip \<noteq> [] \<and> isExponentPart_opt (c # r)))"

definition isStrDecimalLiteral :: "jsstring \<Rightarrow> bool" where
  "isStrDecimalLiteral t =
     (case t of
        [] \<Rightarrow> False
      | sg # u \<Rightarrow>
          if sg = 43 \<or> sg = 45 then isStrUnsignedDecimalLiteral u
          else isStrUnsignedDecimalLiteral (sg # u))"

definition isStringNumericLiteral :: "jsstring \<Rightarrow> bool" where
  "isStringNumericLiteral s =
     (let t = trim s in
      t = [] \<or> isNonDecimalIntegerLiteral t \<or> isStrDecimalLiteral t)"

definition isNaN :: "jsstring option \<Rightarrow> bool" where
  "isNaN v = (case v of None \<Rightarrow> True | Some s \<Rightarrow> \<not> isStringNumericLiteral s)"

text \<open>
  \<open>parseInt(value, 10)\<close>: leading white space and one sign are skipped, the longest run of
  decimal digits is read, and the rest is ignored; with no digit the result is \<open>NaN\<close>
  (\<open>None\<close>). The result is a double: a very long run of digits is rounded, which cannot
  move it across the bounds 0 and 4 it is compared with below, and \<open>"-0"\<close> gives the negative
  zero, which compares and serialises as 0.
\<close>

definition digits_value :: "jsstring \<Rightarrow> nat" where
  "digits_value z = foldl (\<lambda>a c. 10 * a + (c - 48)) 0 z"

definition parseInt :: "jsstring \<Rightarrow> int option" where
  "parseInt s =
     (let t = dropWhile isWhiteSpace s;
          u = (case t of
                 [] \<Rightarrow> []
               | sg # r \<Rightarrow> if sg = 43 \<or> sg = 45 then r else t);
          z = takeWhile isDecimalDigit u
      in if z = [] then None
         else if take 1 t = [45] then Some (- int (digits_value z))
         else Some (int (digits_value z)))"

text \<open>
  \<open>toLowerCase\<close> on the letters A to Z; every other code unit is left as it is. The full
  function also lowers letters outside ASCII, and the only ASCII letter it makes of one of
  them by itself is \<open>k\<close> (of U+212A), which is in none of the names the lowered value is
  compared with below: those comparisons come out the same.
\<close>

definition toLowerCase :: "jsstring \<Rightarrow> jsstring" where
  "toLowerCase s = map (\<lambda>c. if 65 \<le> c \<and> c \<le> 90 then c + 32 else c) s"

subsection \<open>parsePriorityFilter\<close>

text \<open>
  \<open>parsePriorityFilter\<close>, lines 395 to 424. The value of \<open>eq\<close> is a number, or, when the
  lookup \<open>PRIORITY_MAP[lowercaseValue]\<close> finds a member every object inherits from
  \<open>Object.prototype\<close>, that member. The argument is \<open>None\<close> for \<open>undefined\<close>.
\<close>

datatype jsvalue = Number int | Inherited jsstring

datatype priority_filter = eq_filter jsvalue | in_filter "int list"

definition PRIORITY_MAP :: "(jsstring \<times> int) list" where
  "PRIORITY_MAP =
     [(js ''no'', 0), (js ''urgent'', 1), (js ''high'', 2), (js ''medium'', 3), (js ''low'', 4)]"

definition Object_prototype :: "jsstring list" where
  "Object_prototype =
     [js ''constructor'', js ''__defineGetter__'', js ''__defineSetter__'',
      js ''hasOwnProperty'', js ''__lookupGetter__'', js ''__lookupSetter__'',
      js ''isPrototypeOf'', js ''propertyIsEnumerable'', js ''toString'', js ''valueOf'',
      js ''__proto__'', js ''toLocaleString'']"

definition PRIORITY_MAP_get :: "jsstring \<Rightarrow> jsvalue option" where
  "PRIORITY_MAP_get k =
     (case map_of PRIORITY_MAP k of
        Some n \<Rightarrow> Some (Number n)
      | None \<Rightarrow> if k \<in> set Object_prototype then Some (Inherited k) else None)"

text \<open>The error of \<open>value.toLowerCase()\<close> on \<open>undefined\<close>; the message is the engine's.\<close>

definition toLowerCase_of_undefined :: error where
  "toLowerCase_of_undefined =
     TypeError (js ''Cannot read properties of undefined (reading 'toLowerCase')'')"

definition parsePriorityFilter :: "jsstring option \<Rightarrow> error + priority_filter option" where
  "parsePriorityFilter value =
     (if \<not> isNaN value then
        (case (case value of None \<Rightarrow> None | Some v \<Rightarrow> parseInt v) of
           None \<Rightarrow> Inr None
         | Some numValue \<Rightarrow>
             if numValue \<ge> 0 \<and> numValue \<le> 4 then
               (if numValue = 2 then Inr (Some (in_filter [1, 2]))
                else Inr (Some (eq_filter (Number numValue))))
             else Inr None)
      else
        (case value of
           None \<Rightarrow> Inl toLowerCase_of_undefined
         | Some v \<Rightarrow>
             (let lowercaseValue = toLowerCase v in
              if lowercaseValue = js ''high'' then Inr (Some (in_filter [1, 2]))
              else (case PRIORITY_MAP_get lowercaseValue of
                      Some x \<Rightarrow> Inr (Some (eq_filter x))
                    | None \<Rightarrow> Inr None))))"

subsection \<open>parseQueryPart and parseQuery\<close>

text \<open>
  The filter object built by \<open>parseQuery\<close>. A field that may be missing is an option; a
  value that may be \<open>undefined\<close> is an option as well, so \<open>Some None\<close> is a field that is
  present and holds \<open>{name: {eq: undefined}}\<close>. \<open>type_nin\<close> is \<open>state.type.nin\<close>, \<open>name_eq\<close> is
  \<open>state.name.eq\<close>, \<open>or_filter\<close> is the field \<open>or\<close>.
\<close>

datatype text_predicate = title_contains jsstring | description_contains jsstring

record state_filter =
  type_nin :: "jsstring list option"
  name_eq :: "jsstring option option"

record issue_filter =
  state :: state_filter
  team :: "jsstring option option"
  labels :: "jsstring option option"
  or_filter :: "text_predicate list option"

record flags =
  isMyIssuesQuery :: bool
  priorityFilter :: "priority_filter option"

record part_result = flags +
  hasExplicitStateFilter :: bool

record query_result = flags +
  filter' :: issue_filter

text \<open>
  \<open>parseQueryPart\<close>, lines 358 to 393: the three flags it returns, and the filter object it
  has updated in place.
\<close>

definition parseQueryPart ::
  "jsstring \<Rightarrow> jsstring option \<Rightarrow> issue_filter \<Rightarrow> error + (part_result \<times> issue_filter)" where
  "parseQueryPart key cleanValue flt =
     (if key = js ''assignee'' then
        Inr (\<lparr> isMyIssuesQuery = (cleanValue = Some (js ''@me'')), priorityFilter = None,
               hasExplicitStateFilter = False \<rparr>, flt)
      else if key = js ''priority'' then
        (case parsePriorityFilter cleanValue of
           Inl e \<Rightarrow> Inl e
         | Inr p \<Rightarrow>
             Inr (\<lparr> isMyIssuesQuery = False, priorityFilter = p,
                    hasExplicitStateFilter = False \<rparr>, flt))
      else if key = js ''state'' \<or> key = js ''status'' then
        Inr (\<lparr> isMyIssuesQuery = False, priorityFilter = None, hasExplicitStateFilter = True \<rparr>,
             flt\<lparr> state := \<lparr> type_nin = None, name_eq = Some cleanValue \<rparr> \<rparr>)
      else if key = js ''team'' then
        Inr (\<lparr> isMyIssuesQuery = False, priorityFilter = None, hasExplicitStateFilter = False \<rparr>,
             flt\<lparr> team := Some cleanValue \<rparr>)
      else if key = js ''label'' then
        Inr (\<lparr> isMyIssuesQuery = False, priorityFilter = None, hasExplicitStateFilter = False \<rparr>,
             flt\<lparr> labels := Some cleanValue \<rparr>)
      else
        Inr (\<lparr> isMyIssuesQuery = False, priorityFilter = None, hasExplicitStateFilter = False \<rparr>,
             if colon \<notin> set key
             then flt\<lparr> or_filter := Some [title_contains key, description_contains key] \<rparr>
             else flt))"

text \<open>
  \<open>parseQuery\<close>, lines 328 to 356: the loop over the parts, which stops at the first
  exception, and the function itself.
\<close>

fun parseQuery_loop ::
  "jsstring list \<Rightarrow> part_result \<times> issue_filter \<Rightarrow> error + (part_result \<times> issue_filter)" where
  "parseQuery_loop [] st = Inr st"
| "parseQuery_loop (part # queryParts) (acc, flt) =
     (case split_colon part of
        (key, rest) \<Rightarrow>
          (let value = (case rest of [] \<Rightarrow> None | v # _ \<Rightarrow> Some v);
               cleanValue = map_option strip_quotes value
           in case parseQueryPart key cleanValue flt of
                Inl e \<Rightarrow> Inl e
              | Inr (result, flt') \<Rightarrow>
                  parseQuery_loop queryParts
                    (\<lparr> isMyIssuesQuery = isMyIssuesQuery result \<or> isMyIssuesQuery acc,
                       priorityFilter =
                         (case priorityFilter result of
                            Some p \<Rightarrow> Some p
                          | None \<Rightarrow> priorityFilter acc),
                       hasExplicitStateFilter =
                         hasExplicitStateFilter result \<or> hasExplicitStateFilter acc \<rparr>,
                     flt')))"

definition default_filter :: issue_filter where
  "default_filter =
     \<lparr> state = \<lparr> type_nin = Some [js ''completed'', js ''canceled''], name_eq = None \<rparr>,
       team = None, labels = None, or_filter = None \<rparr>"

definition parseQuery :: "jsstring \<Rightarrow> error + query_result" where
  "parseQuery query =
     (let queryParts = matchAll query in
      case parseQuery_loop queryParts
             (\<lparr> isMyIssuesQuery = False, priorityFilter = None,
                hasExplicitStateFilter = False \<rparr>, default_filter) of
        Inl e \<Rightarrow> Inl e
      | Inr (acc, flt) \<Rightarrow>
          Inr \<lparr> isMyIssuesQuery = isMyIssuesQuery acc,
                priorityFilter = priorityFilter acc,
                filter' =
                  (if hasExplicitStateFilter acc
                   then flt\<lparr> state := (state flt)\<lparr> type_nin := None \<rparr> \<rparr>
                   else flt) \<rparr>)"

section \<open>The tools\<close>

subsection \<open>The upstream client and the response shape\<close>

text \<open>
  What \<open>mapIssue\<close> reads of an upstream issue (\<open>issue.state?.name\<close>,
  \<open>issue.labels?.nodes?.map(label => label.name)\<close> and so on, each possibly
  \<open>undefined\<close>), and what it returns.
\<close>

record raw_issue =
  issue_id :: jsstring
  issue_identifier :: jsstring
  issue_title :: jsstring
  issue_state_name :: "jsstring option"
  issue_assignee_name :: "jsstring option"
  issue_priority :: "nat option"
  issue_url :: jsstring
  issue_createdAt :: jsstring
  issue_estimate :: "int option"
  issue_label_names :: "jsstring list option"
  issue_description :: "jsstring option"

record mapped_issue =
  mapped_id :: jsstring
  mapped_identifier :: jsstring
  mapped_title :: jsstring
  mapped_status :: "jsstring option"
  mapped_assignee :: "jsstring option"
  mapped_priority :: "jsstring option"
  mapped_url :: jsstring
  mapped_createdAt :: jsstring
  mapped_estimate :: "int option"
  mapped_label_names :: "jsstring list"
  mapped_description :: "jsstring option"

definition PRIORITY_LABELS :: "jsstring list" where
  "PRIORITY_LABELS = [js ''No priority'', js ''Urgent'', js ''High'', js ''Medium'', js ''Low'']"

definition mapIssue :: "raw_issue \<Rightarrow> mapped_issue" where
  "mapIssue issue =
     \<lparr> mapped_id = issue_id issue,
       mapped_identifier = issue_identifier issue,
       mapped_title = issue_title issue,
       mapped_status = issue_state_name issue,
       mapped_assignee = issue_assignee_name issue,
       mapped_priority =
         (let i = (case issue_priority issue of None \<Rightarrow> 0 | Some p \<Rightarrow> p)
          in if i < length PRIORITY_LABELS then Some (PRIORITY_LABELS ! i) else None),
       mapped_url = issue_url issue,
       mapped_createdAt = issue_createdAt issue,
       mapped_estimate = issue_estimate issue,
       mapped_label_names = (case issue_label_names issue of None \<Rightarrow> [] | Some ls \<Rightarrow> ls),
       mapped_description = issue_description issue \<rparr>"

record team_state =
  state_id :: jsstring
  state_name :: jsstring
  state_type :: jsstring

record raw_team =
  team_id :: jsstring
  team_name :: jsstring
  team_key :: jsstring
  team_description :: "jsstring option"
  team_states :: "error + team_state list"

record mapped_team =
  mteam_id :: jsstring
  mteam_name :: jsstring
  mteam_key :: jsstring
  mteam_description :: "jsstring option"
  mteam_states :: "team_state list"

definition mapState :: "team_state \<Rightarrow> team_state" where
  "mapState st = \<lparr> state_id = state_id st, state_name = state_name st, state_type = state_type st \<rparr>"

definition mapTeam :: "raw_team \<Rightarrow> team_state list \<Rightarrow> mapped_team" where
  "mapTeam tm states =
     \<lparr> mteam_id = team_id tm, mteam_name = team_name tm, mteam_key = team_key tm,
       mteam_description = team_description tm, mteam_states = map mapState states \<rparr>"

record organization_info =
  org_id :: jsstring
  org_name :: jsstring
  org_urlKey :: jsstring
  org_createdAt :: jsstring

text \<open>
  The arguments of the two upstream issue queries. \<open>assignedIssues\<close> gets the filter object
  itself; \<open>issues\<close> gets \<open>{...filter, priority: priorityFilter}\<close>, the filter extended by
  the key \<open>priority\<close> (whose value may be \<open>undefined\<close>), or no filter at all from
  \<open>read-resource\<close>.
\<close>

record merged_filter = issue_filter +
  priority_key :: "priority_filter option"

record query_args =
  first :: nat
  orderBy :: jsstring

record assigned_args = query_args +
  filter_arg :: issue_filter

record issues_args = query_args +
  merged_filter_arg :: "merged_filter option"
  includeArchived :: bool

text \<open>
  The upstream client: what each of its calls resolves to (\<open>Inr\<close>) or rejects with
  (\<open>Inl\<close>), as a function of the arguments the handler passes.
\<close>

record upstream =
  client_viewer :: "error + unit"
  client_assignedIssues :: "assigned_args \<Rightarrow> error + raw_issue list"
  client_issues :: "issues_args \<Rightarrow> error + raw_issue list"
  client_issue :: "jsstring \<Rightarrow> error + raw_issue option"
  client_organization :: "error + organization_info"
  client_team :: "jsstring \<Rightarrow> error + raw_team"
  client_teams :: "error + raw_team list"

text \<open>The upstream calls a handler makes, with their arguments, in order.\<close>

datatype upstream_call =
    Viewer
  | AssignedIssues assigned_args
  | Issues issues_args
  | Issue jsstring
  | Organization
  | Team jsstring
  | Teams

text \<open>
  \<open>createResponse\<close>: the object that is serialised into the response text, with the
  limiter's metrics attached. \<open>handleLinearError\<close> turns an exception into the \<open>error\<close>
  string. Logging to the console is not modelled.
\<close>

datatype resource_data =
    issue_data mapped_issue
  | issues_data "mapped_issue list"
  | organization_data organization_info
  | team_data mapped_team
  | teams_data "mapped_team list"

datatype payload =
    error_payload jsstring
  | search_payload jsstring nat "mapped_issue list"
  | data_payload resource_data

record response =
  body :: payload
  apiMetrics :: metrics_snapshot

definition createResponse :: "RateLimiter \<Rightarrow> payload \<Rightarrow> response" where
  "createResponse rateLimiter data = \<lparr> body = data, apiMetrics = getMetrics rateLimiter \<rparr>"

definition handleLinearError :: "error \<Rightarrow> jsstring" where
  "handleLinearError e =
     (case e of
        LinearError m \<Rightarrow> js ''Linear API Error: '' @ m
      | _ \<Rightarrow> js ''Error: '' @ message e)"

text \<open>A number inside a template literal: its decimal digits.\<close>

fun decimal :: "nat \<Rightarrow> jsstring" where
  "decimal n = (if n < 10 then [48 + n] else decimal (n div 10) @ [48 + n mod 10])"

subsection \<open>The search-issues tool\<close>

text \<open>
  The handler of \<open>search-issues\<close>, lines 169 to 226: the response, the limiter afterwards and
  the upstream calls made. \<open>now\<close> is the clock value \<open>checkLimit\<close> reads.
\<close>

definition search_issues ::
  "upstream \<Rightarrow> int \<Rightarrow> RateLimiter \<Rightarrow> jsstring \<Rightarrow> response \<times> RateLimiter \<times> upstream_call list" where
  "search_issues up now rateLimiter query =
     (case checkLimit now rateLimiter of
        (Inl e, rl) \<Rightarrow> (createResponse rl (error_payload (handleLinearError e)), rl, [])
      | (Inr u, rl) \<Rightarrow>
          (case client_viewer up of
             Inl e \<Rightarrow>
               (createResponse rl (error_payload (handleLinearError
                  (Error (js ''Failed to get current user information'')))), rl, [Viewer])
           | Inr me \<Rightarrow>
               (case parseQuery query of
                  Inl e \<Rightarrow> (createResponse rl (error_payload (handleLinearError e)), rl, [Viewer])
                | Inr r \<Rightarrow>
                    if isMyIssuesQuery r then
                      (let args = \<lparr> first = 100, orderBy = js ''updatedAt'',
                                    filter_arg = filter' r \<rparr>
                       in case client_assignedIssues up args of
                            Inl e \<Rightarrow>
                              (createResponse rl (error_payload (handleLinearError e)), rl,
                               [Viewer, AssignedIssues args])
                          | Inr nodes \<Rightarrow>
                              (let mappedIssues = map mapIssue nodes
                               in (createResponse rl
                                     (search_payload
                                        (js ''Found '' @ decimal (length mappedIssues) @
                                         js '' issues assigned to you'')
                                        (length mappedIssues) mappedIssues),
                                   rl, [Viewer, AssignedIssues args])))
                    else
                      (let args = \<lparr> first = 100, orderBy = js ''updatedAt'',
                                    merged_filter_arg =
                                      Some (issue_filter.extend (filter' r)
                                              \<lparr> priority_key = priorityFilter r \<rparr>),
                                    includeArchived = False \<rparr>
                       in case client_issues up args of
                            Inl e \<Rightarrow>
                              (createResponse rl (error_payload (handleLinearError e)), rl,
                               [Viewer, Issues args])
                          | Inr nodes \<Rightarrow>
                              (let mappedIssues = map mapIssue nodes
                               in (createResponse rl
                                     (search_payload
                                        (js ''Found '' @ decimal (length mappedIssues) @
                                         js '' issues'')
                                        (length mappedIssues) mappedIssues),
                                   rl, [Viewer, Issues args]))))))"

subsection \<open>The read-resource tool\<close>

text \<open>
  \<open>uri.match(/^linear:\/\/([^/]+)\/(.+)$/)\<close>, line 239: the prefix, the longest non-empty
  run of characters other than a slash, a slash, and then at least one character up to
  the end of the string, none of them a line terminator. The result is the pair
  \<open>(resourceType, id)\<close>.
\<close>

definition slash :: code_unit where "slash = 47"

definition match_uri :: "jsstring \<Rightarrow> (jsstring \<times> jsstring) option" where
  "match_uri uri =
     (if take 9 uri = js ''linear://'' then
        (let resourceType = takeWhile (\<lambda>c. c \<noteq> slash) (drop 9 uri) in
         if resourceType = [] then None
         else
           (case dropWhile (\<lambda>c. c \<noteq> slash) (drop 9 uri) of
              [] \<Rightarrow> None
            | s # rid \<Rightarrow>
                if rid \<noteq> [] \<and> list_all (\<lambda>c. \<not> isLineTerminator c) rid
                then Some (resourceType, rid) else None))
      else None)"

text \<open>
  \<open>Promise.all\<close> over the teams, each with its states: the first rejection (here in list
  order) rejects the whole.
\<close>

fun team_states_all :: "raw_team list \<Rightarrow> error + mapped_team list" where
  "team_states_all [] = Inr []"
| "team_states_all (tm # tms) =
     (case team_states tm of
        Inl e \<Rightarrow> Inl e
      | Inr states \<Rightarrow>
          (case team_states_all tms of
             Inl e \<Rightarrow> Inl e
           | Inr ms \<Rightarrow> Inr (mapTeam tm (map mapState states) # ms)))"

text \<open>
  The handler of \<open>read-resource\<close>, lines 236 to 308: first the body of its \<open>try\<close> block,
  then the handler with its \<open>catch\<close>.
\<close>

definition read_resource_data ::
  "upstream \<Rightarrow> jsstring \<Rightarrow> (error + resource_data) \<times> upstream_call list" where
  "read_resource_data up uri =
     (case match_uri uri of
        None \<Rightarrow> (Inl (Error (js ''Invalid Linear URI format: '' @ uri)), [])
      | Some (resourceType, rid) \<Rightarrow>
          if resourceType = js ''issues'' then
            (if rid \<noteq> [] then
               (case client_issue up rid of
                  Inl e \<Rightarrow> (Inl e, [Issue rid])
                | Inr None \<Rightarrow> (Inl (Error (js ''Issue not found: '' @ rid)), [Issue rid])
                | Inr (Some i) \<Rightarrow> (Inr (issue_data (mapIssue i)), [Issue rid]))
             else
               (let args = \<lparr> first = 100, orderBy = js ''updatedAt'',
                             merged_filter_arg = None, includeArchived = False \<rparr>
                in case client_issues up args of
                     Inl e \<Rightarrow> (Inl e, [Issues args])
                   | Inr nodes \<Rightarrow> (Inr (issues_data (map mapIssue nodes)), [Issues args])))
          else if resourceType = js ''organization'' then
            (case client_organization up of
               Inl e \<Rightarrow> (Inl e, [Organization])
             | Inr org \<Rightarrow>
                 (Inr (organization_data
                         \<lparr> org_id = org_id org, org_name = org_name org,
                           org_urlKey = org_urlKey org, org_createdAt = org_createdAt org \<rparr>),
                  [Organization]))
          else if resourceType = js ''teams'' then
            (if rid \<noteq> [] then
               (case client_team up rid of
                  Inl e \<Rightarrow> (Inl e, [Team rid])
                | Inr tm \<Rightarrow>
                    (case team_states tm of
                       Inl e \<Rightarrow> (Inl e, [Team rid])
                     | Inr states \<Rightarrow>
                         (Inr (team_data (mapTeam tm (map mapState states))), [Team rid])))
             else
               (case client_teams up of
                  Inl e \<Rightarrow> (Inl e, [Teams])
                | Inr nodes \<Rightarrow>
                    (case team_states_all nodes of
                       Inl e \<Rightarrow> (Inl e, [Teams])
                     | Inr ms \<Rightarrow> (Inr (teams_data ms), [Teams]))))
          else (Inl (Error (js ''Unknown resource type: '' @ resourceType)), []))"

definition read_resource ::
  "upstream \<Rightarrow> RateLimiter \<Rightarrow> jsstring \<Rightarrow> response \<times> upstream_call list" where
  "read_resource up rateLimiter uri =
     (case read_resource_data up uri of
        (Inl e, calls) \<Rightarrow> (createResponse rateLimiter (error_payload (handleLinearError e)), calls)
      | (Inr d, calls) \<Rightarrow> (createResponse rateLimiter (data_payload d), calls))"

section \<open>Notions used to state the properties\<close>

text \<open>
  The key and the clean value \<open>parseQuery\<close> hands to \<open>parseQueryPart\<close> for a part, the keys
  the \<open>switch\<close> of \<open>parseQueryPart\<close> has a case for, and the two of them that set the state
  predicate.
\<close>

definition part_key :: "jsstring \<Rightarrow> jsstring" where
  "part_key part = fst (split_colon part)"

definition part_cleanValue :: "jsstring \<Rightarrow> jsstring option" where
  "part_cleanValue part =
     map_option strip_quotes (case snd (split_colon part) of [] \<Rightarrow> None | v # _ \<Rightarrow> Some v)"

definition handled_keys :: "jsstring list" where
  "handled_keys =
     [js ''assignee'', js ''priority'', js ''state'', js ''status'', js ''team'', js ''label'']"

definition is_state_key :: "jsstring \<Rightarrow> bool" where
  "is_state_key k \<longleftrightarrow> k = js ''state'' \<or> k = js ''status''"

text \<open>
  An upstream workspace with a viewer, no issue, no team and no organization, for the
  closed examples below.
\<close>

definition empty_workspace :: upstream where
  "empty_workspace =
     \<lparr> client_viewer = Inr (),
       client_assignedIssues = (\<lambda>args. Inr []),
       client_issues = (\<lambda>args. Inr []),
       client_issue = (\<lambda>rid. Inr None),
       client_organization = Inl (LinearError (js ''Entity not found'')),
       client_team = (\<lambda>rid. Inl (LinearError (js ''Entity not found''))),
       client_teams = Inr [] \<rparr>"

section \<open>Properties of the rate limiter\<close>

lemma admit_all_snoc:
  "admit_all s (nows @ [now]) = admit_step (admit_all s nows) now"
  by (simp add: admit_all_def)

lemma admit_step_requests:
  "requests (fst (admit_step (s, adm) now)) =
     filter (\<lambda>t. now - t < 3600000) (requests s) @
       (if snd (admit_step (s, adm) now) = adm then [] else [now])"
  by (simp add: admit_step_def checkLimit_def Let_def)

lemma admit_step_log:
  "snd (admit_step (s, adm) now) = adm \<or> snd (admit_step (s, adm) now) = adm @ [now]"
  by (simp add: admit_step_def checkLimit_def Let_def)

text \<open>Under a non-decreasing clock the log of admitted calls is itself non-decreasing.\<close>

lemma admit_all_log_sorted:
  assumes "sorted nows"
  shows "set (snd (admit_all s nows)) \<subseteq> set nows \<and> sorted (snd (admit_all s nows))"
  using assms
proof (induction nows rule: rev_induct)
  case Nil
  then show ?case by (simp add: admit_all_def)
next
  case (snoc now nows)
  then have srt: "sorted nows" and le: "\<forall>t\<in>set nows. t \<le> now"
    by (auto simp: sorted_append)
  obtain s' adm where st: "admit_all s nows = (s', adm)" by (cases "admit_all s nows")
  from snoc.IH srt st have ih: "set adm \<subseteq> set nows" "sorted adm" by auto
  from ih le have bound: "\<forall>t\<in>set adm. t \<le> now" by blast
  from admit_step_log [of s' adm now] show ?case
    using ih bound by (auto simp: admit_all_snoc st sorted_append)
qed

text \<open>
  The window after an attempt is the admitted log cut to the hour before that attempt:
  a timestamp pruned at one attempt would be pruned at every later one as well.
\<close>

lemma window_is_trailing_hour:
  assumes "sorted (nows @ [now])" and "requests s = []"
  shows "requests (fst (admit_all s (nows @ [now]))) =
           filter (\<lambda>t. now - t < 3600000) (snd (admit_all s (nows @ [now])))"
  using assms
proof (induction nows arbitrary: now rule: rev_induct)
  case Nil
  then show ?case by (simp add: admit_all_def admit_step_def checkLimit_def Let_def)
next
  case (snoc prev nows)
  then have srt: "sorted (nows @ [prev])" and le: "prev \<le> now"
    by (auto simp: sorted_append)
  obtain s' adm where st: "admit_all s (nows @ [prev]) = (s', adm)"
    by (cases "admit_all s (nows @ [prev])")
  from snoc.IH [OF srt snoc.prems(2)] st
  have ih: "requests s' = filter (\<lambda>t. prev - t < 3600000) adm" by simp
  have narrow: "filter (\<lambda>t. now - t < 3600000) (filter (\<lambda>t. prev - t < 3600000) adm) =
                filter (\<lambda>t. now - t < 3600000) adm"
    using le by (auto intro: filter_cong)
  have "admit_all s ((nows @ [prev]) @ [now]) = admit_step (s', adm) now"
    using admit_all_snoc [of s "nows @ [prev]" now] st by simp
  moreover have "requests (fst (admit_step (s', adm) now)) =
      filter (\<lambda>t. now - t < 3600000) (snd (admit_step (s', adm) now))"
  proof (cases "snd (admit_step (s', adm) now) = adm")
    case True
    then show ?thesis using admit_step_requests [of s' adm now] ih narrow by simp
  next
    case False
    then have "snd (admit_step (s', adm) now) = adm @ [now]"
      using admit_step_log [of s' adm now] by simp
    then show ?thesis using admit_step_requests [of s' adm now] ih narrow by simp
  qed
  ultimately show ?case by simp
qed

text \<open>
  Claim C1, amended. Whatever state earlier calls have left: when the recorded timestamps
  less than 3,600,000 ms old at \<open>now\<close> (those \<open>t\<close> with \<open>now - t < 3600000\<close>; one that is
  exactly 3,600,000 ms old has left the window) number at least the ceiling, \<open>checkLimit\<close> throws
  ``Rate limit exceeded'', the window is the pruned one without \<open>now\<close>, and the all-time
  counter is unchanged; otherwise it returns, the window is the pruned one followed by
  \<open>now\<close>, and the counter has grown by one. The ceiling is the constructor's 1000 and no
  call changes it.
\<close>

theorem checkLimit_gate:
  "(requestsPerHour s \<le> int (length (filter (\<lambda>t. now - t < 3600000) (requests s))) \<longrightarrow>
      fst (checkLimit now s) = Inl (Error (js ''Rate limit exceeded'')) \<and>
      requests (snd (checkLimit now s)) = filter (\<lambda>t. now - t < 3600000) (requests s) \<and>
      totalRequests (metrics (snd (checkLimit now s))) = totalRequests (metrics s)) \<and>
   (int (length (filter (\<lambda>t. now - t < 3600000) (requests s))) < requestsPerHour s \<longrightarrow>
      fst (checkLimit now s) = Inr () \<and>
      requests (snd (checkLimit now s)) = filter (\<lambda>t. now - t < 3600000) (requests s) @ [now] \<and>
      totalRequests (metrics (snd (checkLimit now s))) = totalRequests (metrics s) + 1) \<and>
   requestsPerHour (snd (checkLimit now s)) = requestsPerHour s \<and>
   requestsPerHour (new_RateLimiter t0) = 1000"
  by (simp add: checkLimit_def new_RateLimiter_def Let_def)

text \<open>
  Claim C2, amended. From a fresh limiter and under a non-decreasing clock, the window
  right after any attempt (made at \<open>now\<close>) is exactly the list of the admitted timestamps
  less than 3,600,000 ms old, those \<open>t\<close> with \<open>now - t < 3600000\<close>, so its size is the number
  of admits less than an hour old, and it is non-decreasing.
\<close>

theorem window_trailing_hour_sorted:
  assumes "sorted (nows @ [now])"
  shows "requests (fst (admit_all (new_RateLimiter t0) (nows @ [now]))) =
           filter (\<lambda>t. now - t < 3600000) (snd (admit_all (new_RateLimiter t0) (nows @ [now])))
         \<and> length (requests (fst (admit_all (new_RateLimiter t0) (nows @ [now])))) =
           length (filter (\<lambda>t. now - t < 3600000)
                     (snd (admit_all (new_RateLimiter t0) (nows @ [now]))))
         \<and> sorted (requests (fst (admit_all (new_RateLimiter t0) (nows @ [now]))))"
proof -
  have w: "requests (fst (admit_all (new_RateLimiter t0) (nows @ [now]))) =
           filter (\<lambda>t. now - t < 3600000) (snd (admit_all (new_RateLimiter t0) (nows @ [now])))"
    using assms by (intro window_is_trailing_hour) (simp_all add: new_RateLimiter_def)
  have "sorted (snd (admit_all (new_RateLimiter t0) (nows @ [now])))"
    using admit_all_log_sorted [OF assms] by simp
  then have "sorted (filter (\<lambda>t. now - t < 3600000)
                       (snd (admit_all (new_RateLimiter t0) (nows @ [now]))))"
    by (rule sorted_wrt_filter)
  with w show ?thesis by simp
qed

text \<open>
  Claim C10. Before any \<open>checkLimit\<close> call, \<open>getMetrics\<close> on a fresh limiter reports no
  requests at all, the full ceiling of 1000 remaining, and as \<open>lastRequestTime\<close> the clock
  value read by the constructor.
\<close>

theorem getMetrics_fresh:
  "getMetrics (new_RateLimiter t0) =
     \<lparr> totalRequests = 0, requestsInLastHour = 0, averageRequestTime = 0, queueLength = 0,
       lastRequestTime = t0, remainingRequests = 1000 \<rparr>"
  by (simp add: getMetrics_def new_RateLimiter_def metrics.extend_def)

theorem checkLimit_gate_witness:
  "fst (checkLimit 5000 ((new_RateLimiter 0)\<lparr> requestsPerHour := 2, requests := [10, 20] \<rparr>)) =
     Inl (Error (js ''Rate limit exceeded'')) \<and>
   requests (snd (checkLimit 5000
     ((new_RateLimiter 0)\<lparr> requestsPerHour := 2, requests := [10, 20] \<rparr>))) = [10, 20] \<and>
   fst (checkLimit 3600015 ((new_RateLimiter 0)\<lparr> requestsPerHour := 2, requests := [10, 20] \<rparr>)) =
     Inr () \<and>
   requests (snd (checkLimit 3600015
     ((new_RateLimiter 0)\<lparr> requestsPerHour := 2, requests := [10, 20] \<rparr>))) = [20, 3600015]"
  using checkLimit_gate [of "(new_RateLimiter 0)\<lparr> requestsPerHour := 2, requests := [10, 20] \<rparr>" 5000 0]
    checkLimit_gate [of "(new_RateLimiter 0)\<lparr> requestsPerHour := 2, requests := [10, 20] \<rparr>" 3600015 0]
  by (simp add: new_RateLimiter_def)

theorem window_trailing_hour_sorted_witness:
  "sorted [0, 10, 3600005 :: int] \<and>
   requests (fst (admit_all (new_RateLimiter 0) [0, 10, 3600005])) = [10, 3600005] \<and>
   snd (admit_all (new_RateLimiter 0) [0, 10, 3600005]) = [0, 10, 3600005]"
  using window_trailing_hour_sorted [of "[0, 10]" 3600005 0]
  by (simp add: admit_all_def admit_step_def checkLimit_def new_RateLimiter_def Let_def)

text \<open>
  Claim C1 as stated counts the timestamps within the trailing 3,600,000 ms, one that is
  exactly 3,600,000 ms old included: the specification drops only the timestamps older
  than that. With a ceiling of 2 and admits at 0 and 5, both recorded timestamps are within
  3,600,000 ms of the call at 3600000, which the claim therefore refuses; the code prunes 0,
  admits the call and counts it.
\<close>

theorem checkLimit_gate_boundary:
  "fst (admit_all ((new_RateLimiter 0)\<lparr> requestsPerHour := 2 \<rparr>) [0, 5]) =
     \<lparr> requestsPerHour = 2, requests = [0, 5],
       metrics = \<lparr> totalRequests = 2, requestsInLastHour = 2, averageRequestTime = 0,
                   queueLength = 0, lastRequestTime = 5 \<rparr> \<rparr> \<and>
   requestsPerHour (fst (admit_all ((new_RateLimiter 0)\<lparr> requestsPerHour := 2 \<rparr>) [0, 5])) \<le>
     int (length (filter (\<lambda>t. 3600000 - t \<le> 3600000)
       (requests (fst (admit_all ((new_RateLimiter 0)\<lparr> requestsPerHour := 2 \<rparr>) [0, 5]))))) \<and>
   fst (checkLimit 3600000
          (fst (admit_all ((new_RateLimiter 0)\<lparr> requestsPerHour := 2 \<rparr>) [0, 5]))) = Inr () \<and>
   requests (snd (checkLimit 3600000
          (fst (admit_all ((new_RateLimiter 0)\<lparr> requestsPerHour := 2 \<rparr>) [0, 5])))) =
     [5, 3600000] \<and>
   totalRequests (metrics (snd (checkLimit 3600000
          (fst (admit_all ((new_RateLimiter 0)\<lparr> requestsPerHour := 2 \<rparr>) [0, 5]))))) = 3"
  by (simp add: admit_all_def admit_step_def checkLimit_def new_RateLimiter_def Let_def)

text \<open>
  Claim C2 as stated has in the window every admitted timestamp within 3,600,000 ms of the
  attempt. Under the clock 0, 3600000 both calls of a fresh limiter are admitted and both
  timestamps are within 3,600,000 ms of the second attempt, yet the window after it holds
  the second only: its size is 1, the admits of the trailing hour are 2.
\<close>

theorem window_trailing_hour_boundary:
  "sorted [0, 3600000 :: int] \<and>
   snd (admit_all (new_RateLimiter 0) [0, 3600000]) = [0, 3600000] \<and>
   filter (\<lambda>t. 3600000 - t \<le> 3600000) (snd (admit_all (new_RateLimiter 0) [0, 3600000])) =
     [0, 3600000] \<and>
   requests (fst (admit_all (new_RateLimiter 0) [0, 3600000])) = [3600000] \<and>
   requests (fst (admit_all (new_RateLimiter 0) [0, 3600000])) \<noteq>
     filter (\<lambda>t. 3600000 - t \<le> 3600000) (snd (admit_all (new_RateLimiter 0) [0, 3600000]))"
  by (simp add: admit_all_def admit_step_def checkLimit_def new_RateLimiter_def Let_def)

section \<open>Properties of the query compiler\<close>

lemmas tokenizer_defs =
  js_def match_at_def alt1_def alt2_def alt3_def quoted_tail_def isWhiteSpace_def
  colon_def dquote_def

lemmas number_defs =
  isNaN_def isStringNumericLiteral_def trim_def isNonDecimalIntegerLiteral_def
  isStrDecimalLiteral_def isStrUnsignedDecimalLiteral_def isExponentPart_opt_def
  isDecimalDigit_def isHexDigit_def isOctalDigit_def isBinaryDigit_def
  parseInt_def digits_value_def

lemmas parser_defs =
  parseQuery_def parseQueryPart_def parsePriorityFilter_def default_filter_def
  strip_quotes_def isLineTerminator_def toLowerCase_def PRIORITY_MAP_get_def
  PRIORITY_MAP_def Object_prototype_def Let_def

subsection \<open>The examples of the specification\<close>

lemma parseQuery_examples:
  "parseQuery (js ''status:Done bug'') =
     Inr \<lparr> isMyIssuesQuery = False, priorityFilter = None,
           filter' = default_filter
             \<lparr> state := \<lparr> type_nin = None, name_eq = Some (Some (js ''Done'')) \<rparr>,
               or_filter := Some [title_contains (js ''bug''), description_contains (js ''bug'')] \<rparr> \<rparr>"
  "parseQuery (js ''priority:2'') =
     Inr \<lparr> isMyIssuesQuery = False, priorityFilter = Some (in_filter [1, 2]),
           filter' = default_filter \<rparr>"
  "parseQuery (js ''priority:high'') =
     Inr \<lparr> isMyIssuesQuery = False, priorityFilter = Some (in_filter [1, 2]),
           filter' = default_filter \<rparr>"
  "parseQuery (js ''assignee:@me priority:high'') =
     Inr \<lparr> isMyIssuesQuery = True, priorityFilter = Some (in_filter [1, 2]),
           filter' = default_filter \<rparr>"
  "parseQuery (js ''team:Core label:bug urgent-fix'') =
     Inr \<lparr> isMyIssuesQuery = False, priorityFilter = None,
           filter' = default_filter
             \<lparr> team := Some (Some (js ''Core'')), labels := Some (Some (js ''bug'')),
               or_filter := Some [title_contains (js ''urgent-fix''),
                                  description_contains (js ''urgent-fix'')] \<rparr> \<rparr>"
  by (simp_all add: tokenizer_defs number_defs parser_defs)

subsection \<open>When the compiler throws\<close>

text \<open>
  The key handed to \<open>parseQueryPart\<close> is a piece of \<open>split(':')\<close> and so never holds a
  colon: the test \<open>!key.includes(':')\<close> of the default branch always succeeds.
\<close>

lemma split_colon_key_no_colon: "colon \<notin> set (fst (split_colon part))"
  by (induction part) (auto split: prod.splits)

text \<open>A part has no second piece exactly when it has no colon, and then it is the key.\<close>

lemma split_colon_bare:
  "split_colon part = (k, []) \<longleftrightarrow> part = k \<and> colon \<notin> set part"
proof (induction part arbitrary: k)
  case Nil
  then show ?case by auto
next
  case (Cons c cs)
  obtain x xs where sp: "split_colon cs = (x, xs)" by (cases "split_colon cs")
  show ?case
  proof
    assume l: "split_colon (c # cs) = (k, [])"
    then have nc: "c \<noteq> colon" by (auto simp: sp split: if_splits)
    with l have "k = c # x" "xs = []" by (auto simp: sp)
    with sp Cons.IH [of x] have "cs = x" "colon \<notin> set cs" by auto
    with nc \<open>k = c # x\<close> show "c # cs = k \<and> colon \<notin> set (c # cs)" by simp
  next
    assume r: "c # cs = k \<and> colon \<notin> set (c # cs)"
    then have nc: "c \<noteq> colon" and ncs: "colon \<notin> set cs" by auto
    from ncs Cons.IH [of cs] have "split_colon cs = (cs, [])" by simp
    with nc r show "split_colon (c # cs) = (k, [])" by auto
  qed
qed

text \<open>
  \<open>parsePriorityFilter\<close> throws on \<open>undefined\<close> and on nothing else, so \<open>parseQuery\<close> throws
  exactly on the queries with a part that is the bare word \<open>priority\<close>.
\<close>

lemma parsePriorityFilter_throws_iff:
  "(\<exists>e. parsePriorityFilter v = Inl e) \<longleftrightarrow> v = None"
proof (cases v)
  case None
  then show ?thesis by (simp add: parsePriorityFilter_def isNaN_def)
next
  case (Some s)
  then show ?thesis
    by (simp add: parsePriorityFilter_def Let_def split: option.splits)
qed

lemma parseQueryPart_throws_iff:
  "(\<exists>e. parseQueryPart key v flt = Inl e) \<longleftrightarrow> key = js ''priority'' \<and> v = None"
proof (cases "key = js ''priority''")
  case True
  then have "key \<noteq> js ''assignee''" by (simp add: js_def)
  with True have "parseQueryPart key v flt =
      (case parsePriorityFilter v of
         Inl e \<Rightarrow> Inl e
       | Inr p \<Rightarrow> Inr (\<lparr> isMyIssuesQuery = False, priorityFilter = p,
                          hasExplicitStateFilter = False \<rparr>, flt))"
    by (simp add: parseQueryPart_def)
  with True parsePriorityFilter_throws_iff [of v] show ?thesis
    by (cases "parsePriorityFilter v") auto
next
  case False
  then show ?thesis by (simp add: parseQueryPart_def)
qed

lemma parseQuery_loop_throws_iff:
  "(\<exists>e. parseQuery_loop queryParts st = Inl e) \<longleftrightarrow> js ''priority'' \<in> set queryParts"
proof (induction queryParts arbitrary: st)
  case Nil
  then show ?case by simp
next
  case (Cons part queryParts)
  obtain acc flt where st: "st = (acc, flt)" by (cases st)
  obtain key rest where sp: "split_colon part = (key, rest)" by (cases "split_colon part")
  let ?v = "map_option strip_quotes (case rest of [] \<Rightarrow> None | v # _ \<Rightarrow> Some v)"
  have nc: "colon \<notin> set (js ''priority'')" by (simp add: js_def colon_def)
  have a: "?v = None \<longleftrightarrow> rest = []" by (cases rest) simp_all
  have b: "key = js ''priority'' \<and> rest = [] \<longleftrightarrow> split_colon part = (js ''priority'', [])"
    using sp by auto
  have c: "split_colon part = (js ''priority'', []) \<longleftrightarrow> part = js ''priority''"
    using split_colon_bare [of part "js ''priority''"] nc by auto
  have here: "(\<exists>e. parseQueryPart key ?v flt = Inl e) \<longleftrightarrow> part = js ''priority''"
    using parseQueryPart_throws_iff [of key ?v flt] a b c by simp
  have step: "parseQuery_loop (part # queryParts) st =
      (case parseQueryPart key ?v flt of
         Inl e \<Rightarrow> Inl e
       | Inr (result, flt') \<Rightarrow>
           parseQuery_loop queryParts
             (\<lparr> isMyIssuesQuery = isMyIssuesQuery result \<or> isMyIssuesQuery acc,
                priorityFilter =
                  (case priorityFilter result of Some p \<Rightarrow> Some p | None \<Rightarrow> priorityFilter acc),
                hasExplicitStateFilter =
                  hasExplicitStateFilter result \<or> hasExplicitStateFilter acc \<rparr>, flt'))"
    by (simp add: st sp Let_def)
  show ?case
  proof (cases "parseQueryPart key ?v flt")
    case (Inl e)
    with here have "part = js ''priority''" by blast
    moreover from Inl have "parseQuery_loop (part # queryParts) st = Inl e"
      by (simp only: step sum.case)
    ultimately show ?thesis by auto
  next
    case (Inr p)
    obtain result flt' where p: "p = (result, flt')" by (cases p)
    from Inr here have ne: "part \<noteq> js ''priority''" by auto
    have "parseQuery_loop (part # queryParts) st =
        parseQuery_loop queryParts
             (\<lparr> isMyIssuesQuery = isMyIssuesQuery result \<or> isMyIssuesQuery acc,
                priorityFilter =
                  (case priorityFilter result of Some p \<Rightarrow> Some p | None \<Rightarrow> priorityFilter acc),
                hasExplicitStateFilter =
                  hasExplicitStateFilter result \<or> hasExplicitStateFilter acc \<rparr>, flt')"
      using Inr p by (simp only: step sum.case prod.case)
    then show ?thesis using Cons.IH ne by (simp del: parseQuery_loop.simps)
  qed
qed

lemma parseQuery_throws_iff:
  "(\<exists>e. parseQuery query = Inl e) \<longleftrightarrow> js ''priority'' \<in> set (matchAll query)"
  using parseQuery_loop_throws_iff
    [of "matchAll query" "(\<lparr> isMyIssuesQuery = False, priorityFilter = None,
                hasExplicitStateFilter = False \<rparr>, default_filter)"]
  by (auto simp: parseQuery_def split: sum.splits)

text \<open>
  Claim C3 says that \<open>parseQuery\<close> returns a result for every input string. It does not:
  the query \<open>priority\<close> is one part with no colon, its value is \<open>undefined\<close>, the key selects
  the \<open>priority\<close> branch, and \<open>parsePriorityFilter\<close> calls \<open>toLowerCase\<close> on \<open>undefined\<close>.
\<close>

theorem parseQuery_bare_priority_throws:
  "parseQuery (js ''priority'') = Inl toLowerCase_of_undefined"
  by (simp add: tokenizer_defs number_defs parser_defs)

subsection \<open>One turn of the loop\<close>

lemma parseQuery_loop_step:
  assumes "parseQuery_loop (part # queryParts) (acc, flt) = Inr (acc', flt')"
  obtains result flt1 where
    "parseQueryPart (part_key part) (part_cleanValue part) flt = Inr (result, flt1)"
    "parseQuery_loop queryParts
       (\<lparr> isMyIssuesQuery = isMyIssuesQuery result \<or> isMyIssuesQuery acc,
          priorityFilter =
            (case priorityFilter result of Some p \<Rightarrow> Some p | None \<Rightarrow> priorityFilter acc),
          hasExplicitStateFilter =
            hasExplicitStateFilter result \<or> hasExplicitStateFilter acc \<rparr>, flt1) =
     Inr (acc', flt')"
proof -
  obtain key rest where sp: "split_colon part = (key, rest)" by (cases "split_colon part")
  from assms show ?thesis
    by (auto simp: sp Let_def part_key_def part_cleanValue_def split: sum.splits intro: that)
qed

subsection \<open>Free text\<close>

text \<open>
  Where the compiler returns, the free-text predicate is decided by the last part whose key
  has no case in the \<open>switch\<close>, be it a bare word or the key of a \<open>key:value\<close> fragment; it
  is absent when there is no such part.
\<close>

lemma parseQueryPart_or:
  assumes "parseQueryPart key v flt = Inr (result, flt1)" and "colon \<notin> set key"
  shows "or_filter flt1 =
           (if key \<in> set handled_keys then or_filter flt
            else Some [title_contains key, description_contains key])"
  using assms
  by (auto simp: parseQueryPart_def handled_keys_def split: if_splits sum.splits)

lemma parseQuery_loop_or:
  assumes "parseQuery_loop queryParts (acc, flt) = Inr (acc', flt')"
  shows "or_filter flt' =
           (case filter (\<lambda>p. part_key p \<notin> set handled_keys) queryParts of
              [] \<Rightarrow> or_filter flt
            | ps \<Rightarrow> Some [title_contains (part_key (last ps)),
                         description_contains (part_key (last ps))])"
  using assms
proof (induction queryParts arbitrary: acc flt)
  case Nil
  then show ?case by simp
next
  case (Cons part queryParts)
  from Cons.prems obtain result flt1 where
    pr: "parseQueryPart (part_key part) (part_cleanValue part) flt = Inr (result, flt1)"
    and run: "parseQuery_loop queryParts
       (\<lparr> isMyIssuesQuery = isMyIssuesQuery result \<or> isMyIssuesQuery acc,
          priorityFilter =
            (case priorityFilter result of Some p \<Rightarrow> Some p | None \<Rightarrow> priorityFilter acc),
          hasExplicitStateFilter =
            hasExplicitStateFilter result \<or> hasExplicitStateFilter acc \<rparr>, flt1) =
     Inr (acc', flt')"
    by (rule parseQuery_loop_step)
  have nc: "colon \<notin> set (part_key part)"
    unfolding part_key_def by (rule split_colon_key_no_colon)
  note ih = Cons.IH [OF run]
  note here = parseQueryPart_or [OF pr nc]
  show ?case
    using ih here by (auto split: list.splits)
qed

lemma parseQuery_free_text:
  assumes "parseQuery query = Inr r"
  shows "or_filter (filter' r) =
           (case filter (\<lambda>p. part_key p \<notin> set handled_keys) (matchAll query) of
              [] \<Rightarrow> None
            | ps \<Rightarrow> Some [title_contains (part_key (last ps)),
                         description_contains (part_key (last ps))])"
proof -
  from assms obtain acc flt where
    run: "parseQuery_loop (matchAll query)
            (\<lparr> isMyIssuesQuery = False, priorityFilter = None,
               hasExplicitStateFilter = False \<rparr>, default_filter) = Inr (acc, flt)"
    and r: "filter' r = (if hasExplicitStateFilter acc
                         then flt\<lparr> state := (state flt)\<lparr> type_nin := None \<rparr> \<rparr> else flt)"
    by (auto simp: parseQuery_def Let_def split: sum.splits)
  from parseQuery_loop_or [OF run] r show ?thesis
    by (auto simp: default_filter_def split: list.splits)
qed

text \<open>
  Claim C4 says that a \<open>key:value\<close> fragment with an unknown key has no effect and never
  feeds the free-text predicate, which is the last bare word. In the code the key of such a
  fragment becomes the free-text term: \<open>bug foo:bar\<close> searches for \<open>foo\<close>, not for \<open>bug\<close>.
\<close>

theorem parseQuery_unknown_key_feeds_free_text:
  "parseQuery (js ''bug foo:bar'') =
     Inr \<lparr> isMyIssuesQuery = False, priorityFilter = None,
           filter' = default_filter
             \<lparr> or_filter := Some [title_contains (js ''foo''), description_contains (js ''foo'')] \<rparr> \<rparr>"
  by (simp add: tokenizer_defs number_defs parser_defs)

subsection \<open>Priority values\<close>

text \<open>
  A value made of decimal digits only is numeric, and is read as the number it denotes:
  0, 1, 3 and 4 yield an equality filter, 2 the set filter, any larger number no filter.
\<close>

lemma trim_unchanged:
  assumes "s \<noteq> []" and "\<not> isWhiteSpace (hd s)" and "\<not> isWhiteSpace (last s)"
  shows "trim s = s"
proof -
  from assms(1,2) have a: "dropWhile isWhiteSpace s = s" by (cases s) simp_all
  from assms(1,3) have "dropWhile isWhiteSpace (rev s) = rev s"
    by (cases "rev s") (simp_all add: last_rev [symmetric] hd_rev)
  with a show ?thesis by (simp add: trim_def)
qed

lemma digit_not_space: "isDecimalDigit c \<Longrightarrow> \<not> isWhiteSpace c"
  by (auto simp: isDecimalDigit_def isWhiteSpace_def)

lemma digits_numeric:
  assumes "v \<noteq> []" and "list_all isDecimalDigit v"
  shows "\<not> isNaN (Some v)" and "parseInt v = Some (int (digits_value v))"
proof -
  from assms obtain c cs where v: "v = c # cs" and c: "isDecimalDigit c"
    by (cases v) auto
  from assms have l: "isDecimalDigit (last v)" by (simp add: list_all_iff)
  have tw: "takeWhile isDecimalDigit v = v" "dropWhile isDecimalDigit v = []"
    using assms(2) by (simp_all add: list_all_iff)
  have t: "trim v = v"
    using assms(1) c l v by (intro trim_unchanged) (simp_all add: digit_not_space)
  have sign: "c \<noteq> 43" "c \<noteq> 45" using c by (auto simp: isDecimalDigit_def)
  have "isStrUnsignedDecimalLiteral v"
    using assms(1) by (simp add: isStrUnsignedDecimalLiteral_def Let_def tw)
  then have "isStrDecimalLiteral v" using sign by (simp add: isStrDecimalLiteral_def v)
  then show "\<not> isNaN (Some v)" by (simp add: isNaN_def isStringNumericLiteral_def t)
  have d: "dropWhile isWhiteSpace v = v" using c by (simp add: v digit_not_space)
  have u: "(case v of [] \<Rightarrow> [] | sg # r \<Rightarrow> if sg = 43 \<or> sg = 45 then r else v) = v"
    using sign by (simp add: v)
  have m: "take 1 v \<noteq> [45]" using sign by (simp add: v)
  show "parseInt v = Some (int (digits_value v))"
    unfolding parseInt_def Let_def d u tw using assms(1) m by simp
qed

lemma parsePriorityFilter_digits:
  assumes "v \<noteq> []" and "list_all isDecimalDigit v"
  shows "parsePriorityFilter (Some v) =
           Inr (if digits_value v = 2 then Some (in_filter [1, 2])
                else if digits_value v \<le> 4 then Some (eq_filter (Number (int (digits_value v))))
                else None)"
  using digits_numeric [OF assms] by (simp add: parsePriorityFilter_def)

text \<open>
  A value that, lowered, is one of the five words of \<open>PRIORITY_MAP\<close> is not numeric, and
  yields the equality filter on the ordinal of the word, or the set filter for \<open>high\<close>.
\<close>

lemma letter_start_not_numeric:
  assumes "65 \<le> c \<and> c \<le> 90 \<or> 97 \<le> c \<and> c \<le> 122" and "c \<noteq> 73"
  shows "isNaN (Some (c # cs))"
proof -
  have ws: "\<not> isWhiteSpace c" using assms(1) by (auto simp: isWhiteSpace_def)
  have "dropWhile isWhiteSpace (rev cs @ [c]) = dropWhile isWhiteSpace (rev cs) @ [c]"
    using ws by (simp add: dropWhile_append3)
  then have t: "trim (c # cs) = c # rev (dropWhile isWhiteSpace (rev cs))"
    using ws by (simp add: trim_def)
  let ?t = "rev (dropWhile isWhiteSpace (rev cs))"
  have nd: "\<not> isDecimalDigit c" using assms(1) by (auto simp: isDecimalDigit_def)
  have a: "\<not> isNonDecimalIntegerLiteral (c # ?t)"
    using assms(1) by (auto simp: isNonDecimalIntegerLiteral_def split: list.splits)
  have "c # ?t \<noteq> js ''Infinity''" using assms(2) by (simp add: js_def)
  then have "\<not> isStrUnsignedDecimalLiteral (c # ?t)"
    using nd assms(1) by (auto simp: isStrUnsignedDecimalLiteral_def)
  then have b: "\<not> isStrDecimalLiteral (c # ?t)"
    using assms(1) by (auto simp: isStrDecimalLiteral_def)
  from a b show ?thesis by (simp add: isNaN_def isStringNumericLiteral_def t)
qed

lemma lowercase_word_not_numeric:
  assumes "toLowerCase v = x # w" and "97 \<le> x" and "x \<le> 122" and "x \<noteq> 105"
  shows "isNaN (Some v)"
proof -
  from assms(1) obtain c cs where v: "v = c # cs"
    and c: "(if 65 \<le> c \<and> c \<le> 90 then c + 32 else c) = x"
    by (cases v) (auto simp: toLowerCase_def)
  from c assms(2-4) have "65 \<le> c \<and> c \<le> 90 \<or> 97 \<le> c \<and> c \<le> 122" "c \<noteq> 73"
    by (auto split: if_splits)
  then show ?thesis unfolding v by (rule letter_start_not_numeric)
qed

lemma parsePriorityFilter_words:
  assumes "map_of PRIORITY_MAP (toLowerCase v) = Some n"
  shows "parsePriorityFilter (Some v) =
           Inr (Some (if n = 2 then in_filter [1, 2] else eq_filter (Number n)))"
proof -
  from assms have w: "(toLowerCase v, n) \<in> set PRIORITY_MAP" by (rule map_of_SomeD)
  then obtain x r where xr: "toLowerCase v = x # r" "97 \<le> x" "x \<le> 122" "x \<noteq> 105"
    by (auto simp: PRIORITY_MAP_def js_def)
  then have nan: "isNaN (Some v)" by (rule lowercase_word_not_numeric)
  from w have "toLowerCase v = js ''high'' \<longleftrightarrow> n = 2"
    by (auto simp: PRIORITY_MAP_def js_def)
  with nan assms show ?thesis
    by (simp add: parsePriorityFilter_def PRIORITY_MAP_get_def Let_def)
qed

text \<open>
  Claim C5 says that a value that is neither a number from 0 to 4 nor one of the five words
  yields no priority filter. In the code \<open>0x10\<close> (sixteen) passes \<open>isNaN\<close> and is then
  read by \<open>parseInt\<close> as 0, \<open>3.5\<close> is read as 3, and \<open>constructor\<close> is found in
  \<open>PRIORITY_MAP\<close> through the prototype chain: each of them yields an equality filter.
\<close>

theorem parsePriorityFilter_hex_fraction_inherited:
  "parsePriorityFilter (Some (js ''0x10'')) = Inr (Some (eq_filter (Number 0))) \<and>
   parsePriorityFilter (Some (js ''3.5'')) = Inr (Some (eq_filter (Number 3))) \<and>
   parsePriorityFilter (Some (js ''constructor'')) =
     Inr (Some (eq_filter (Inherited (js ''constructor'')))) \<and>
   parseQuery (js ''priority:0x10'') =
     Inr \<lparr> isMyIssuesQuery = False, priorityFilter = Some (eq_filter (Number 0)),
           filter' = default_filter \<rparr>"
  by (simp add: tokenizer_defs number_defs parser_defs)

subsection \<open>The state predicate\<close>

text \<open>
  Where the compiler returns, the state predicate is the default exclusion when no part has
  the key \<open>state\<close> or \<open>status\<close>, and otherwise the name equality with the clean value of the
  last such part, with no \<open>type\<close> field: the \<open>delete\<close> after the loop finds nothing to
  delete.
\<close>

lemma keys_distinct:
  "js ''state'' \<noteq> js ''assignee''" "js ''state'' \<noteq> js ''priority''"
  "js ''status'' \<noteq> js ''assignee''" "js ''status'' \<noteq> js ''priority''"
  by (simp_all add: js_def)

lemma parseQueryPart_state:
  assumes "parseQueryPart key v flt = Inr (result, flt1)"
  shows "state flt1 = (if is_state_key key then \<lparr> type_nin = None, name_eq = Some v \<rparr> else state flt)"
    and "hasExplicitStateFilter result = is_state_key key"
  using assms keys_distinct
  by (auto simp: parseQueryPart_def is_state_key_def split: if_splits sum.splits)

lemma parseQuery_loop_state:
  assumes "parseQuery_loop queryParts (acc, flt) = Inr (acc', flt')"
  shows "state flt' =
           (case filter (\<lambda>p. is_state_key (part_key p)) queryParts of
              [] \<Rightarrow> state flt
            | ps \<Rightarrow> \<lparr> type_nin = None, name_eq = Some (part_cleanValue (last ps)) \<rparr>)
         \<and> (hasExplicitStateFilter acc' \<longleftrightarrow>
              hasExplicitStateFilter acc \<or>
              filter (\<lambda>p. is_state_key (part_key p)) queryParts \<noteq> [])"
  using assms
proof (induction queryParts arbitrary: acc flt)
  case Nil
  then show ?case by simp
next
  case (Cons part queryParts)
  from Cons.prems obtain result flt1 where
    pr: "parseQueryPart (part_key part) (part_cleanValue part) flt = Inr (result, flt1)"
    and run: "parseQuery_loop queryParts
       (\<lparr> isMyIssuesQuery = isMyIssuesQuery result \<or> isMyIssuesQuery acc,
          priorityFilter =
            (case priorityFilter result of Some p \<Rightarrow> Some p | None \<Rightarrow> priorityFilter acc),
          hasExplicitStateFilter =
            hasExplicitStateFilter result \<or> hasExplicitStateFilter acc \<rparr>, flt1) =
     Inr (acc', flt')"
    by (rule parseQuery_loop_step)
  note ih = Cons.IH [OF run]
  note here = parseQueryPart_state [OF pr]
  show ?case
    using ih here by (auto split: list.splits)
qed

lemma parseQuery_state:
  assumes "parseQuery query = Inr r"
  shows "state (filter' r) =
           (case filter (\<lambda>p. is_state_key (part_key p)) (matchAll query) of
              [] \<Rightarrow> \<lparr> type_nin = Some [js ''completed'', js ''canceled''], name_eq = None \<rparr>
            | ps \<Rightarrow> \<lparr> type_nin = None, name_eq = Some (part_cleanValue (last ps)) \<rparr>)"
proof -
  from assms obtain acc flt where
    run: "parseQuery_loop (matchAll query)
            (\<lparr> isMyIssuesQuery = False, priorityFilter = None,
               hasExplicitStateFilter = False \<rparr>, default_filter) = Inr (acc, flt)"
    and r: "filter' r = (if hasExplicitStateFilter acc
                         then flt\<lparr> state := (state flt)\<lparr> type_nin := None \<rparr> \<rparr> else flt)"
    by (auto simp: parseQuery_def Let_def split: sum.splits)
  from parseQuery_loop_state [OF run] r show ?thesis
    by (auto simp: default_filter_def split: list.splits)
qed

text \<open>
  Claim C6 says that a query with no \<open>state:\<close> or \<open>status:\<close> token keeps the default
  exclusion of completed and canceled issues. In the code the bare word \<open>status\<close> (and
  likewise \<open>state\<close>) selects the state branch with the value \<open>undefined\<close>: the default
  exclusion is gone and the state predicate is \<open>{name: {eq: undefined}}\<close>.
\<close>

theorem parseQuery_bare_status_replaces_default:
  "parseQuery (js ''status'') =
     Inr \<lparr> isMyIssuesQuery = False, priorityFilter = None,
           filter' = default_filter \<lparr> state := \<lparr> type_nin = None, name_eq = Some None \<rparr> \<rparr> \<rparr>"
  by (simp add: tokenizer_defs number_defs parser_defs)

section \<open>Properties of the tools\<close>

subsection \<open>search-issues\<close>

text \<open>
  Where the compiler returns, a part \<open>assignee:@me\<close> sets the flag and no later part clears
  it.
\<close>

lemma parseQuery_loop_flag_kept:
  assumes "parseQuery_loop queryParts (acc, flt) = Inr (acc', flt')"
    and "isMyIssuesQuery acc \<or> js ''assignee:@me'' \<in> set queryParts"
  shows "isMyIssuesQuery acc'"
  using assms
proof (induction queryParts arbitrary: acc flt)
  case Nil
  then show ?case by simp
next
  case (Cons part queryParts)
  obtain key rest where sp: "split_colon part = (key, rest)" by (cases "split_colon part")
  let ?v = "map_option strip_quotes (case rest of [] \<Rightarrow> None | v # _ \<Rightarrow> Some v)"
  from Cons.prems(1) obtain result flt1 where
    pr: "parseQueryPart key ?v flt = Inr (result, flt1)"
    by (auto simp: sp Let_def split: sum.splits)
  let ?acc1 = "\<lparr> isMyIssuesQuery = isMyIssuesQuery result \<or> isMyIssuesQuery acc,
                priorityFilter =
                  (case priorityFilter result of Some p \<Rightarrow> Some p | None \<Rightarrow> priorityFilter acc),
                hasExplicitStateFilter =
                  hasExplicitStateFilter result \<or> hasExplicitStateFilter acc \<rparr>"
  from Cons.prems(1) pr have rest_run: "parseQuery_loop queryParts (?acc1, flt1) = Inr (acc', flt')"
    by (simp add: sp Let_def)
  have me: "part = js ''assignee:@me'' \<Longrightarrow> isMyIssuesQuery result"
  proof -
    assume "part = js ''assignee:@me''"
    moreover have "split_colon (js ''assignee:@me'') = (js ''assignee'', [js ''@me''])"
      by (simp add: js_def colon_def)
    ultimately have kr: "key = js ''assignee''" "rest = [js ''@me'']"
      using sp by simp_all
    have "strip_quotes (js ''@me'') = js ''@me''"
      by (simp add: strip_quotes_def js_def dquote_def)
    with kr have "?v = Some (js ''@me'')" by simp
    with pr kr(1) show ?thesis by (auto simp: parseQueryPart_def)
  qed
  from Cons.prems(2) me have "isMyIssuesQuery ?acc1 \<or> js ''assignee:@me'' \<in> set queryParts"
    by auto
  with Cons.IH [OF rest_run] show ?case by blast
qed

lemma assignee_me_token_sets_flag:
  assumes "js ''assignee:@me'' \<in> set (matchAll query)" and "parseQuery query = Inr r"
  shows "isMyIssuesQuery r"
proof -
  from assms(2) obtain acc flt where
    run: "parseQuery_loop (matchAll query)
            (\<lparr> isMyIssuesQuery = False, priorityFilter = None,
               hasExplicitStateFilter = False \<rparr>, default_filter) = Inr (acc, flt)"
    and r: "isMyIssuesQuery r = isMyIssuesQuery acc"
    by (auto simp: parseQuery_def Let_def split: sum.splits)
  from parseQuery_loop_flag_kept [OF run] assms(1) r show ?thesis by simp
qed

text \<open>
  Once the limiter has admitted the call, the viewer is known and the compiler has returned,
  the handler makes one issue query: with the flag set, \<open>assignedIssues\<close> with the compiled
  filter as it is; otherwise \<open>issues\<close> with the compiled filter extended by the priority
  filter.
\<close>

lemma search_issues_upstream_calls:
  assumes "fst (checkLimit now rl) = Inr ()" and "client_viewer up = Inr ()"
    and "parseQuery query = Inr r"
  shows "snd (snd (search_issues up now rl query)) =
           [Viewer,
            if isMyIssuesQuery r
            then AssignedIssues \<lparr> first = 100, orderBy = js ''updatedAt'', filter_arg = filter' r \<rparr>
            else Issues \<lparr> first = 100, orderBy = js ''updatedAt'',
                          merged_filter_arg =
                            Some (issue_filter.extend (filter' r)
                                    \<lparr> priority_key = priorityFilter r \<rparr>),
                          includeArchived = False \<rparr>]"
proof -
  obtain o1 rl1 where c: "checkLimit now rl = (o1, rl1)" by (cases "checkLimit now rl")
  with assms(1) have o1: "o1 = Inr ()" by simp
  show ?thesis
    using assms(2,3)
    by (simp add: search_issues_def c o1 Let_def split: sum.splits)
qed

text \<open>
  Claim C7 says that every query with the token \<open>assignee:@me\<close> yields
  \<open>isMyIssuesQuery = true\<close> and goes down the my-issues path. For the query
  \<open>assignee:@me priority\<close> the compiler throws on the bare word \<open>priority\<close>: no flag is
  returned, and the handler answers with the error after the viewer lookup, without any
  issue query.
\<close>

theorem search_issues_my_issues_bare_priority:
  "parseQuery (js ''assignee:@me priority'') = Inl toLowerCase_of_undefined \<and>
   body (fst (search_issues empty_workspace 5 (new_RateLimiter 0) (js ''assignee:@me priority''))) =
     error_payload (js ''Error: Cannot read properties of undefined (reading 'toLowerCase')'') \<and>
   snd (snd (search_issues empty_workspace 5 (new_RateLimiter 0) (js ''assignee:@me priority''))) =
     [Viewer]"
proof -
  have p: "parseQuery (js ''assignee:@me priority'') = Inl toLowerCase_of_undefined"
    by (simp add: tokenizer_defs number_defs parser_defs)
  have run: "search_issues empty_workspace 5 (new_RateLimiter 0) (js ''assignee:@me priority'') =
      (createResponse (snd (checkLimit 5 (new_RateLimiter 0)))
         (error_payload (handleLinearError toLowerCase_of_undefined)),
       snd (checkLimit 5 (new_RateLimiter 0)), [Viewer])"
    by (simp add: p search_issues_def checkLimit_def new_RateLimiter_def empty_workspace_def
        Let_def)
  have b: "body (fst (search_issues empty_workspace 5 (new_RateLimiter 0)
                        (js ''assignee:@me priority''))) =
     error_payload (js ''Error: Cannot read properties of undefined (reading 'toLowerCase')'')"
    unfolding run
    by (simp add: createResponse_def handleLinearError_def toLowerCase_of_undefined_def js_def)
  have c: "snd (snd (search_issues empty_workspace 5 (new_RateLimiter 0)
                       (js ''assignee:@me priority''))) = [Viewer]"
    unfolding run by simp
  from p b c show ?thesis by blast
qed

subsection \<open>read-resource\<close>

text \<open>A URI with no slash after the resource type does not match the pattern.\<close>

lemma match_uri_without_id:
  assumes "slash \<notin> set t"
  shows "match_uri (js ''linear://'' @ t) = None"
proof -
  have d: "dropWhile (\<lambda>c. c \<noteq> slash) t = []"
    using assms by auto
  show ?thesis by (simp add: match_uri_def js_def Let_def d)
qed

text \<open>
  Claim C8 says that a URI that names a resource type and omits the id is accepted and
  answered with the list view. In the code the pattern requires a slash and a non-empty id:
  \<open>linear://issues\<close>, \<open>linear://organization\<close> and \<open>linear://teams\<close> are answered with the
  error for an invalid URI, and no upstream call is made.
\<close>

theorem read_resource_without_id_rejected:
  "body (fst (read_resource up rl (js ''linear://issues''))) =
     error_payload (js ''Error: Invalid Linear URI format: linear://issues'') \<and>
   body (fst (read_resource up rl (js ''linear://organization''))) =
     error_payload (js ''Error: Invalid Linear URI format: linear://organization'') \<and>
   body (fst (read_resource up rl (js ''linear://teams''))) =
     error_payload (js ''Error: Invalid Linear URI format: linear://teams'') \<and>
   snd (read_resource up rl (js ''linear://issues'')) = [] \<and>
   snd (read_resource up rl (js ''linear://organization'')) = [] \<and>
   snd (read_resource up rl (js ''linear://teams'')) = []"
  by (simp add: read_resource_def read_resource_data_def match_uri_def slash_def
      createResponse_def handleLinearError_def js_def)

lemma match_uri_issue:
  assumes "rid \<noteq> []" and "list_all (\<lambda>c. \<not> isLineTerminator c) rid"
  shows "match_uri (js ''linear://issues/'' @ rid) = Some (js ''issues'', rid)"
  using assms by (simp add: match_uri_def js_def slash_def Let_def)

text \<open>
  Claim C9, amended. For a URI \<open>linear://issues/<id>\<close> that matches the pattern (the id is
  not empty and holds no line terminator) and an upstream that resolves the id to no issue,
  the handler returns a response, made after the one upstream lookup, whose \<open>error\<close> is
  \<open>Error: Issue not found: <id>\<close>: the message with the prefix \<open>handleLinearError\<close> puts
  before every message.
\<close>

theorem read_resource_issue_not_found:
  assumes "rid \<noteq> []" and "list_all (\<lambda>c. \<not> isLineTerminator c) rid"
    and "client_issue up rid = Inr None"
  shows "read_resource up rl (js ''linear://issues/'' @ rid) =
           (createResponse rl (error_payload (js ''Error: Issue not found: '' @ rid)),
            [Issue rid])"
  using assms(1,3) match_uri_issue [OF assms(1,2)]
  by (simp add: read_resource_def read_resource_data_def handleLinearError_def js_def)

theorem read_resource_issue_not_found_witness:
  "js ''ENG-42'' \<noteq> [] \<and>
   list_all (\<lambda>c. \<not> isLineTerminator c) (js ''ENG-42'') \<and>
   client_issue empty_workspace (js ''ENG-42'') = Inr None \<and>
   body (fst (read_resource empty_workspace (new_RateLimiter 0) (js ''linear://issues/ENG-42''))) =
     error_payload (js ''Error: Issue not found: ENG-42'') \<and>
   snd (read_resource empty_workspace (new_RateLimiter 0) (js ''linear://issues/ENG-42'')) =
     [Issue (js ''ENG-42'')]"
  using read_resource_issue_not_found [of "js ''ENG-42''" empty_workspace "new_RateLimiter 0"]
  by (simp add: empty_workspace_def js_def isLineTerminator_def createResponse_def)

text \<open>The claim as stated, with the error \<open>Issue not found: abc\<close> and no prefix, fails.\<close>

theorem read_resource_issue_not_found_prefixed:
  "body (fst (read_resource empty_workspace (new_RateLimiter 0) (js ''linear://issues/abc''))) =
     error_payload (js ''Error: Issue not found: abc'') \<and>
   body (fst (read_resource empty_workspace (new_RateLimiter 0) (js ''linear://issues/abc''))) \<noteq>
     error_payload (js ''Issue not found: abc'')"
  by (simp add: read_resource_def read_resource_data_def match_uri_def slash_def
      createResponse_def handleLinearError_def js_def empty_workspace_def isLineTerminator_def)

end
